theory Spec2Isabelle
  imports Complex_Main "HOL-Library.AList"
begin

section \<open>Values, errors and query results\<close>

text \<open>
  JSON values as the Python code sees them after \<open>response.json()\<close>: a dict is an
  association list in insertion order, a float is a real number (rounding is not
  modelled).
\<close>

datatype json =
    JNull
  | JBool bool
  | JInt int
  | JFloat real
  | JStr string
  | JList "json list"
  | JDict "(string \<times> json) list"

type_synonym pydict = "(string \<times> json) list"

text \<open>
  Every exception the modelled code can raise. \<open>HTTPException\<close> carries the status code
  of the FastAPI error, \<open>ClientResponseError\<close> the HTTP status aiohttp's
  \<open>raise_for_status\<close> saw.
\<close>

datatype error =
    HTTPException nat
  | NoResultFound
  | MultipleResultsFound
  | ClientResponseError nat
  | ClientConnectionError
  | ContentTypeError
  | AttributeError
  | TypeError
  | KeyError

text \<open>\<open>str(e)\<close>: the description that ends up in \<open>error_message\<close>.\<close>

fun error_str :: "error \<Rightarrow> string" where
  "error_str (HTTPException c) = ''HTTPException''"
| "error_str NoResultFound = ''No row was found when one was required''"
| "error_str MultipleResultsFound = ''Multiple rows were found when exactly one was required''"
| "error_str (ClientResponseError c) = ''ClientResponseError''"
| "error_str ClientConnectionError = ''ClientConnectionError''"
| "error_str ContentTypeError = ''ContentTypeError''"
| "error_str AttributeError = ''AttributeError''"
| "error_str TypeError = ''TypeError''"
| "error_str KeyError = ''KeyError''"

text \<open>SQLAlchemy's \<open>Result.scalar_one_or_none()\<close> and \<open>Result.scalar_one()\<close>.\<close>

fun scalar_one_or_none :: "'a list \<Rightarrow> error + 'a option" where
  "scalar_one_or_none [] = Inr None"
| "scalar_one_or_none [x] = Inr (Some x)"
| "scalar_one_or_none (x # y # zs) = Inl MultipleResultsFound"

fun scalar_one :: "'a list \<Rightarrow> error + 'a" where
  "scalar_one [] = Inl NoResultFound"
| "scalar_one [x] = Inr x"
| "scalar_one (x # y # zs) = Inl MultipleResultsFound"

section \<open>The data model (app/models)\<close>

text \<open>UUID primary keys are natural numbers; timestamps are natural numbers.\<close>

record Node =
  node_id :: nat
  entity_type :: string
  entity_id :: string
  node_source :: string
  display_name :: string
  node_metadata :: pydict

record Edge =
  edge_id :: nat
  source_node_id :: nat
  target_node_id :: nat
  relationship_type :: string
  weight :: real
  edge_metadata :: pydict

datatype CrawlStatus = PENDING | RUNNING | COMPLETED | FAILED | CANCELLED

record CrawlJob =
  job_id :: nat
  job_source :: string
  status :: CrawlStatus
  entity_count :: int
  edge_count :: int
  error_message :: "string option"
  started_at :: "nat option"
  completed_at :: "nat option"


text \<open>
  The database: the three tables in row order, and the next primary key the
  \<open>uuid4\<close> default hands out.
\<close>

record database =
  nodes :: "Node list"
  edges :: "Edge list"
  jobs :: "CrawlJob list"
  next_uuid :: nat


text \<open>Flushing a changed job object writes the row with its primary key.\<close>

definition flush_job :: "database \<Rightarrow> CrawlJob \<Rightarrow> database" where
  "flush_job d job = d\<lparr>jobs := map (\<lambda>j. if job_id j = job_id job then job else j) (jobs d)\<rparr>"

section \<open>Cancelling a crawl job (app/api/crawl.py)\<close>


section \<open>Python values\<close>

text \<open>Truthiness of a value (\<open>if x:\<close>, \<open>not x\<close>); Python's \<open>None\<close> is \<open>JNull\<close>.\<close>

fun truthy :: "json \<Rightarrow> bool" where
  "truthy JNull = False"
| "truthy (JBool b) = b"
| "truthy (JInt i) = (i \<noteq> 0)"
| "truthy (JFloat r) = (r \<noteq> 0)"
| "truthy (JStr s) = (s \<noteq> [])"
| "truthy (JList xs) = (xs \<noteq> [])"
| "truthy (JDict kvs) = (kvs \<noteq> [])"

text \<open>\<open>x.get(key, default)\<close>: only a dict has the method.\<close>

fun dict_get :: "json \<Rightarrow> string \<Rightarrow> json \<Rightarrow> error + json" where
  "dict_get (JDict kvs) k dflt = Inr (case map_of kvs k of None \<Rightarrow> dflt | Some v \<Rightarrow> v)"
| "dict_get x k dflt = Inl AttributeError"

text \<open>
  \<open>{**old, **new}\<close>: the keys of \<open>new\<close> are written into \<open>old\<close> one after the other, a
  key that is already there keeps its place and takes the new value.
\<close>

definition dict_merge :: "('k \<times> 'v) list \<Rightarrow> ('k \<times> 'v) list \<Rightarrow> ('k \<times> 'v) list" where
  "dict_merge old new = fold (\<lambda>(k, v). AList.update k v) new old"

text \<open>
  \<open>str.lower()\<close> on ASCII letters; other bytes stay as they are (a string is a list of
  bytes here, Python lower-cases every Unicode letter).
\<close>

definition char_lower :: "char \<Rightarrow> char" where
  "char_lower ch =
     (case map_of (zip ''ABCDEFGHIJKLMNOPQRSTUVWXYZ'' ''abcdefghijklmnopqrstuvwxyz'') ch of
        None \<Rightarrow> ch
      | Some l \<Rightarrow> l)"

definition lower :: "string \<Rightarrow> string" where
  "lower s = map char_lower s"

section \<open>The base crawler (app/crawlers/base.py)\<close>

text \<open>
  What one \<open>session.get\<close> attempt yields: a response with its status and its body parsed
  as JSON (\<open>None\<close> when the body is not JSON), or no response at all.
\<close>

datatype http_response = HttpResponse nat "json option" | ConnectionFailed

text \<open>
  The crawler object: the database session, the subclass's \<open>get_source_name()\<close>, the two
  discovered-sets of the run, the remote site (\<open>server c url k\<close> is the response to the
  \<open>k\<close>-th attempt of a fetch of \<open>url\<close>) and the clock read by \<open>datetime.utcnow()\<close>.
\<close>

record crawler =
  db :: database
  source_name :: string
  discovered_nodes :: "string set"
  discovered_edges :: "(nat \<times> nat \<times> string) set"
  server :: "string \<Rightarrow> nat \<Rightarrow> http_response"
  utcnow :: nat

text \<open>
  \<open>fetch_with_rate_limit\<close>, from attempt \<open>k\<close> on, with the seconds slept in back-off so
  far. \<open>rate_limiter.acquire()\<close> only delays and is left out. The result is \<open>None\<close> when
  the call never returns.
\<close>

partial_function (option) fetch_with_rate_limit ::
  "(string \<Rightarrow> nat \<Rightarrow> http_response) \<Rightarrow> string \<Rightarrow> nat \<Rightarrow> nat \<Rightarrow> ((error + json) \<times> nat) option" where
  "fetch_with_rate_limit srv url k slept =
     (case srv url k of
        ConnectionFailed \<Rightarrow> Some (Inl ClientConnectionError, slept)
      | HttpResponse st body \<Rightarrow>
          if 400 \<le> st then
            (if st = 429 then fetch_with_rate_limit srv url (Suc k) (slept + 60)
             else Some (Inl (ClientResponseError st), slept))
          else
            (case body of
               None \<Rightarrow> Some (Inl ContentTypeError, slept)
             | Some j \<Rightarrow> Some (Inr j, slept)))"

declare fetch_with_rate_limit.simps [code]

definition select_node :: "database \<Rightarrow> string \<Rightarrow> string \<Rightarrow> string \<Rightarrow> Node list" where
  "select_node d src et eid =
     filter (\<lambda>n. node_source n = src \<and> entity_type n = et \<and> entity_id n = eid) (nodes d)"

definition select_edge :: "database \<Rightarrow> nat \<Rightarrow> nat \<Rightarrow> string \<Rightarrow> Edge list" where
  "select_edge d s t rel =
     filter (\<lambda>e. source_node_id e = s \<and> target_node_id e = t \<and> relationship_type e = rel) (edges d)"

text \<open>Flushing a changed row writes it under its primary key; a new row gets a fresh key.\<close>

definition flush_node :: "database \<Rightarrow> Node \<Rightarrow> database" where
  "flush_node d n = d\<lparr>nodes := map (\<lambda>m. if node_id m = node_id n then n else m) (nodes d)\<rparr>"

definition flush_edge :: "database \<Rightarrow> Edge \<Rightarrow> database" where
  "flush_edge d e = d\<lparr>edges := map (\<lambda>f. if edge_id f = edge_id e then e else f) (edges d)\<rparr>"

definition add_node :: "database \<Rightarrow> Node \<Rightarrow> Node \<times> database" where
  "add_node d n =
     (let n' = n\<lparr>node_id := next_uuid d\<rparr>
      in (n', d\<lparr>nodes := nodes d @ [n'], next_uuid := Suc (next_uuid d)\<rparr>))"

definition add_edge :: "database \<Rightarrow> Edge \<Rightarrow> Edge \<times> database" where
  "add_edge d e =
     (let e' = e\<lparr>edge_id := next_uuid d\<rparr>
      in (e', d\<lparr>edges := edges d @ [e'], next_uuid := Suc (next_uuid d)\<rparr>))"

definition add_job :: "database \<Rightarrow> CrawlJob \<Rightarrow> CrawlJob \<times> database" where
  "add_job d j =
     (let j' = j\<lparr>job_id := next_uuid d\<rparr>
      in (j', d\<lparr>jobs := jobs d @ [j'], next_uuid := Suc (next_uuid d)\<rparr>))"

text \<open>\<open>if metadata:\<close> on an \<open>Optional[Dict]\<close> argument, and \<open>metadata or {}\<close>.\<close>

fun dict_given :: "pydict option \<Rightarrow> bool" where
  "dict_given None = False"
| "dict_given (Some kvs) = (kvs \<noteq> [])"

fun dict_or_empty :: "pydict option \<Rightarrow> pydict" where
  "dict_or_empty None = []"
| "dict_or_empty (Some kvs) = kvs"

definition create_or_update_node ::
  "crawler \<Rightarrow> string \<Rightarrow> string \<Rightarrow> string \<Rightarrow> pydict option \<Rightarrow> (error + Node) \<times> crawler" where
  "create_or_update_node c etype eid dname metadata =
     (let source = source_name c;
          unique_key = source @ '':'' @ etype @ '':'' @ eid
      in if unique_key \<in> discovered_nodes c then
           (case scalar_one (select_node (db c) source etype eid) of
              Inl e \<Rightarrow> (Inl e, c)
            | Inr node \<Rightarrow> (Inr node, c))
         else
           (case scalar_one_or_none (select_node (db c) source etype eid) of
              Inl e \<Rightarrow> (Inl e, c)
            | Inr (Some node) \<Rightarrow>
                let node1 = node\<lparr>display_name := dname\<rparr>;
                    node2 = (if dict_given metadata
                             then node1\<lparr>node_metadata := dict_merge (node_metadata node1) (dict_or_empty metadata)\<rparr>
                             else node1)
                in (Inr node2,
                    c\<lparr>db := flush_node (db c) node2,
                      discovered_nodes := insert unique_key (discovered_nodes c)\<rparr>)
            | Inr None \<Rightarrow>
                let (node, d') = add_node (db c)
                      \<lparr>node_id = 0, entity_type = etype, entity_id = eid, node_source = source,
                       display_name = dname, node_metadata = dict_or_empty metadata\<rparr>
                in (Inr node,
                    c\<lparr>db := d', discovered_nodes := insert unique_key (discovered_nodes c)\<rparr>)))"

definition create_edge ::
  "crawler \<Rightarrow> Node \<Rightarrow> Node \<Rightarrow> string \<Rightarrow> real \<Rightarrow> pydict option \<Rightarrow> (error + Edge option) \<times> crawler" where
  "create_edge c source_node target_node rel w metadata =
     (let edge_key = (node_id source_node, node_id target_node, rel)
      in if edge_key \<in> discovered_edges c then (Inr None, c)
         else
           (case scalar_one_or_none (select_edge (db c) (node_id source_node) (node_id target_node) rel) of
              Inl e \<Rightarrow> (Inl e, c)
            | Inr (Some edge) \<Rightarrow>
                let edge1 = edge\<lparr>weight := (weight edge + w) / 2\<rparr>;
                    edge2 = (if dict_given metadata
                             then edge1\<lparr>edge_metadata := dict_merge (edge_metadata edge1) (dict_or_empty metadata)\<rparr>
                             else edge1)
                in (Inr (Some edge2),
                    c\<lparr>db := flush_edge (db c) edge2,
                      discovered_edges := insert edge_key (discovered_edges c)\<rparr>)
            | Inr None \<Rightarrow>
                let (edge, d') = add_edge (db c)
                      \<lparr>edge_id = 0, source_node_id = node_id source_node,
                       target_node_id = node_id target_node, relationship_type = rel,
                       weight = w, edge_metadata = dict_or_empty metadata\<rparr>
                in (Inr (Some edge),
                    c\<lparr>db := d', discovered_edges := insert edge_key (discovered_edges c)\<rparr>)))"

definition create_crawl_job :: "crawler \<Rightarrow> CrawlJob \<times> crawler" where
  "create_crawl_job c =
     (let (job, d') = add_job (db c)
            \<lparr>job_id = 0, job_source = source_name c, status = PENDING, entity_count = 0,
             edge_count = 0, error_message = None, started_at = None, completed_at = None\<rparr>
      in (job, c\<lparr>db := d'\<rparr>))"

definition update_crawl_job ::
  "crawler \<Rightarrow> CrawlJob \<Rightarrow> CrawlStatus \<Rightarrow> int option \<Rightarrow> int option \<Rightarrow> string option
     \<Rightarrow> CrawlJob \<times> crawler" where
  "update_crawl_job c job st ecount gcount msg =
     (let job1 = job\<lparr>status := st\<rparr>;
          job2 = (case ecount of None \<Rightarrow> job1 | Some n \<Rightarrow> job1\<lparr>entity_count := n\<rparr>);
          job3 = (case gcount of None \<Rightarrow> job2 | Some n \<Rightarrow> job2\<lparr>edge_count := n\<rparr>);
          job4 = (case msg of
                    None \<Rightarrow> job3
                  | Some m \<Rightarrow> if m \<noteq> [] then job3\<lparr>error_message := Some m\<rparr> else job3);
          job5 = (if st = RUNNING \<and> started_at job4 = None
                  then job4\<lparr>started_at := Some (utcnow c)\<rparr> else job4);
          job6 = (if st \<in> {COMPLETED, FAILED}
                  then job5\<lparr>completed_at := Some (utcnow c)\<rparr> else job5)
      in (job6, c\<lparr>db := flush_job (db c) job6\<rparr>))"

text \<open>\<open>BaseCrawler.__init__\<close>: a crawler starts its run with both discovered-sets empty.\<close>

definition new_crawler :: "database \<Rightarrow> string \<Rightarrow> (string \<Rightarrow> nat \<Rightarrow> http_response) \<Rightarrow> nat \<Rightarrow> crawler" where
  "new_crawler d src srv now =
     \<lparr>db = d, source_name = src, discovered_nodes = {}, discovered_edges = {},
      server = srv, utcnow = now\<rparr>"

text \<open>
  The \<open>uuid4\<close> default never hands out a primary key that is already in use: every key in
  the tables lies below the next one.
\<close>

definition uuids_fresh :: "database \<Rightarrow> bool" where
  "uuids_fresh d =
     ((\<forall>n \<in> set (nodes d). node_id n < next_uuid d) \<and>
      (\<forall>e \<in> set (edges d). edge_id e < next_uuid d) \<and>
      (\<forall>j \<in> set (jobs d). job_id j < next_uuid d))"

section \<open>The Reddit crawler (app/crawlers/reddit_crawler.py)\<close>

definition BASE_URL :: string where
  "BASE_URL = ''https://www.reddit.com''"

text \<open>\<open>d.get(key, default)\<close> on a dict.\<close>

definition pyget :: "pydict \<Rightarrow> string \<Rightarrow> json \<Rightarrow> json" where
  "pyget kvs k dflt = (case map_of kvs k of None \<Rightarrow> dflt | Some v \<Rightarrow> v)"

text \<open>A value as a number in arithmetic (\<open>bool\<close> is a number in Python), if it is one.\<close>

fun num_value :: "json \<Rightarrow> real option" where
  "num_value (JBool b) = Some (if b then 1 else 0)"
| "num_value (JInt i) = Some (real_of_int i)"
| "num_value (JFloat r) = Some r"
| "num_value x = None"

text \<open>
  Dict keys: lists and dicts are unhashable; two keys are the same key when they are
  equal in Python, where numbers compare by value.
\<close>

fun hashable :: "json \<Rightarrow> bool" where
  "hashable (JList xs) = False"
| "hashable (JDict kvs) = False"
| "hashable x = True"

definition key_eq :: "json \<Rightarrow> json \<Rightarrow> bool" where
  "key_eq a b =
     (case (num_value a, num_value b) of
        (Some x, Some y) \<Rightarrow> x = y
      | (None, None) \<Rightarrow> a = b
      | (x, y) \<Rightarrow> False)"

text \<open>\<open>counts[k] = counts.get(k, 0) + 1\<close>.\<close>

fun dict_bump :: "(json \<times> nat) list \<Rightarrow> json \<Rightarrow> (json \<times> nat) list" where
  "dict_bump [] k = [(k, 1)]"
| "dict_bump ((k', n) # rest) k =
     (if key_eq k' k then (k', Suc n) # rest else (k', n) # dict_bump rest k)"

text \<open>
  The three fetch helpers. Each runs its body under \<open>try\<close> and turns every exception into
  \<open>None\<close> or the empty list. The query parameters are not modelled: the site answers by
  URL.
\<close>

definition fetch_subreddit_info :: "crawler \<Rightarrow> string \<Rightarrow> json option" where
  "fetch_subreddit_info c subreddit_name =
     (case fetch_with_rate_limit (server c) (BASE_URL @ ''/r/'' @ subreddit_name @ ''/about.json'') 0 0 of
        None \<Rightarrow> None
      | Some (Inl e, t) \<Rightarrow> Some JNull
      | Some (Inr data, t) \<Rightarrow>
          (case dict_get data ''data'' (JDict []) of
             Inl e \<Rightarrow> Some JNull
           | Inr v \<Rightarrow> Some v))"

text \<open>\<open>[child.get("data", {}) for child in children]\<close> over a list.\<close>

fun children_data :: "json list \<Rightarrow> error + json list" where
  "children_data [] = Inr []"
| "children_data (child # rest) =
     (case dict_get child ''data'' (JDict []) of
        Inl e \<Rightarrow> Inl e
      | Inr v \<Rightarrow> (case children_data rest of Inl e \<Rightarrow> Inl e | Inr vs \<Rightarrow> Inr (v # vs)))"

text \<open>
  The listing's posts. A \<open>children\<close> value that is not a list either cannot be iterated
  or yields strings, which have no \<open>get\<close>; both end in the handler, as does an empty one
  in the empty list.
\<close>

definition listing_posts :: "json \<Rightarrow> json list" where
  "listing_posts data =
     (case dict_get data ''data'' (JDict []) of
        Inl e \<Rightarrow> []
      | Inr d \<Rightarrow>
          (case dict_get d ''children'' (JList []) of
             Inl e \<Rightarrow> []
           | Inr (JList children) \<Rightarrow>
               (case children_data children of Inl e \<Rightarrow> [] | Inr posts \<Rightarrow> posts)
           | Inr other \<Rightarrow> []))"

definition fetch_subreddit_posts :: "crawler \<Rightarrow> string \<Rightarrow> json list option" where
  "fetch_subreddit_posts c subreddit_name =
     (case fetch_with_rate_limit (server c) (BASE_URL @ ''/r/'' @ subreddit_name @ ''/top.json'') 0 0 of
        None \<Rightarrow> None
      | Some (Inl e, t) \<Rightarrow> Some []
      | Some (Inr data, t) \<Rightarrow> Some (listing_posts data))"

definition fetch_user_posts :: "crawler \<Rightarrow> string \<Rightarrow> json list option" where
  "fetch_user_posts c username =
     (case fetch_with_rate_limit (server c) (BASE_URL @ ''/user/'' @ username @ ''/submitted.json'') 0 0 of
        None \<Rightarrow> None
      | Some (Inl e, t) \<Rightarrow> Some []
      | Some (Inr data, t) \<Rightarrow> Some (listing_posts data))"

text \<open>\<open>_crawl_user\<close>: the loop that counts the subreddits of the user's posts.\<close>

fun count_subreddits :: "json list \<Rightarrow> (json \<times> nat) list \<Rightarrow> error + (json \<times> nat) list" where
  "count_subreddits [] subreddit_counts = Inr subreddit_counts"
| "count_subreddits (post # rest) subreddit_counts =
     (case dict_get post ''subreddit'' JNull of
        Inl e \<Rightarrow> Inl e
      | Inr subreddit \<Rightarrow>
          if truthy subreddit then
            (if hashable subreddit then count_subreddits rest (dict_bump subreddit_counts subreddit)
             else Inl TypeError)
          else count_subreddits rest subreddit_counts)"

text \<open>\<open>_crawl_user\<close>: the loop that connects the user to the top subreddits.\<close>

fun connect_subreddits :: "crawler \<Rightarrow> Node \<Rightarrow> (json \<times> nat) list \<Rightarrow> (error + unit) \<times> crawler" where
  "connect_subreddits c user_node [] = (Inr (), c)"
| "connect_subreddits c user_node ((subreddit, count) # rest) =
     (case subreddit of
        JStr name \<Rightarrow>
          (case create_or_update_node c ''subreddit'' (lower name) (''r/'' @ name) (Some []) of
             (Inl e, c1) \<Rightarrow> (Inl e, c1)
           | (Inr subreddit_node, c1) \<Rightarrow>
               (case create_edge c1 user_node subreddit_node ''posts_in''
                       (min (real count / 10) 1) (Some [(''post_count'', JInt (int count))]) of
                  (Inl e, c2) \<Rightarrow> (Inl e, c2)
                | (Inr edge, c2) \<Rightarrow> connect_subreddits c2 user_node rest))
      | other \<Rightarrow> (Inl AttributeError, c))"

text \<open>
  \<open>_crawl_user(username, max_subreddits)\<close>. \<open>sorted(..., reverse=True)\<close> is stable, as is
  sorting by the negated count.
\<close>

definition crawl_user :: "crawler \<Rightarrow> string \<Rightarrow> nat \<Rightarrow> ((error + unit) \<times> crawler) option" where
  "crawl_user c username max_subreddits =
     (case fetch_user_posts c username of
        None \<Rightarrow> None
      | Some posts \<Rightarrow>
          Some (case count_subreddits posts [] of
                  Inl e \<Rightarrow> (Inl e, c)
                | Inr subreddit_counts \<Rightarrow>
                    (case create_or_update_node c ''user'' (lower username) (''u/'' @ username) (Some []) of
                       (Inl e, c1) \<Rightarrow> (Inl e, c1)
                     | (Inr user_node, c1) \<Rightarrow>
                         connect_subreddits c1 user_node
                           (take max_subreddits (sort_key (\<lambda>(s, n). - int n) subreddit_counts)))))"

text \<open>\<open>_crawl_subreddit\<close>: the loop over the posts.\<close>

fun crawl_posts ::
  "crawler \<Rightarrow> Node \<Rightarrow> int \<Rightarrow> int \<Rightarrow> json list \<Rightarrow> ((error + unit) \<times> crawler) option" where
  "crawl_posts c subreddit_node depth max_entities [] = Some (Inr (), c)"
| "crawl_posts c subreddit_node depth max_entities (post # rest) =
     (if max_entities \<le> int (card (discovered_nodes c)) then Some (Inr (), c)
      else
        (case post of
           JDict kvs \<Rightarrow>
             (let author = pyget kvs ''author'' JNull
              in if \<not> truthy author \<or> author = JStr ''[deleted]''
                 then crawl_posts c subreddit_node depth max_entities rest
                 else
                   (case author of
                      JStr name \<Rightarrow>
                        (case create_or_update_node c ''user'' (lower name) (''u/'' @ name)
                                (Some [(''post_karma'', JInt 0), (''comment_karma'', JInt 0)]) of
                           (Inl e, c1) \<Rightarrow> Some (Inl e, c1)
                         | (Inr user_node, c1) \<Rightarrow>
                             (case num_value (pyget kvs ''score'' (JInt 1)) of
                                None \<Rightarrow> Some (Inl TypeError, c1)
                              | Some score \<Rightarrow>
                                  (case create_edge c1 user_node subreddit_node ''posts_in'' (score / 100)
                                          (Some [(''post_title'', pyget kvs ''title'' (JStr '''')),
                                                 (''post_id'', pyget kvs ''id'' (JStr '''')),
                                                 (''created_utc'', pyget kvs ''created_utc'' (JInt 0))]) of
                                     (Inl e, c2) \<Rightarrow> Some (Inl e, c2)
                                   | (Inr edge, c2) \<Rightarrow>
                                       if 3 \<le> depth then
                                         (case crawl_user c2 name 5 of
                                            None \<Rightarrow> None
                                          | Some (Inl e, c3) \<Rightarrow> Some (Inl e, c3)
                                          | Some (Inr u, c3) \<Rightarrow>
                                              crawl_posts c3 subreddit_node depth max_entities rest)
                                       else crawl_posts c2 subreddit_node depth max_entities rest)))
                    | other \<Rightarrow> Some (Inl AttributeError, c)))
         | other \<Rightarrow> Some (Inl AttributeError, c)))"

definition crawl_subreddit ::
  "crawler \<Rightarrow> string \<Rightarrow> int \<Rightarrow> int \<Rightarrow> ((error + unit) \<times> crawler) option" where
  "crawl_subreddit c subreddit_name depth max_entities =
     (if max_entities \<le> int (card (discovered_nodes c)) then Some (Inr (), c)
      else
        (case fetch_subreddit_info c subreddit_name of
           None \<Rightarrow> None
         | Some subreddit_data \<Rightarrow>
             if \<not> truthy subreddit_data then Some (Inr (), c)
             else
               (case subreddit_data of
                  JDict kvs \<Rightarrow>
                    (case create_or_update_node c ''subreddit'' (lower subreddit_name)
                            (''r/'' @ subreddit_name)
                            (Some [(''subscribers'', pyget kvs ''subscribers'' (JInt 0)),
                                   (''description'', pyget kvs ''public_description'' (JStr '''')),
                                   (''created_utc'', pyget kvs ''created_utc'' (JInt 0)),
                                   (''over18'', pyget kvs ''over18'' (JBool False))]) of
                       (Inl e, c1) \<Rightarrow> Some (Inl e, c1)
                     | (Inr subreddit_node, c1) \<Rightarrow>
                         if depth < 2 then Some (Inr (), c1)
                         else
                           (case fetch_subreddit_posts c1 subreddit_name of
                              None \<Rightarrow> None
                            | Some posts \<Rightarrow> crawl_posts c1 subreddit_node depth max_entities posts))
                | other \<Rightarrow> Some (Inl AttributeError, c))))"

text \<open>
  \<open>RedditCrawler.crawl\<close>. The job object is returned when the run succeeds; on an
  exception the job, marked FAILED, is in the database and the exception is raised again.
  \<open>db.commit()\<close> is not modelled.
\<close>

definition crawl :: "crawler \<Rightarrow> string \<Rightarrow> int \<Rightarrow> int \<Rightarrow> ((error + CrawlJob) \<times> crawler) option" where
  "crawl c start_entity depth max_entities =
     (let (job0, c1) = create_crawl_job c;
          (job1, c2) = update_crawl_job c1 job0 RUNNING None None None
      in case crawl_subreddit c2 start_entity depth max_entities of
           None \<Rightarrow> None
         | Some (Inr u, c3) \<Rightarrow>
             (let (job2, c4) = update_crawl_job c3 job1 COMPLETED
                                 (Some (int (card (discovered_nodes c3))))
                                 (Some (int (card (discovered_edges c3)))) None
              in Some (Inr job2, c4))
         | Some (Inl e, c3) \<Rightarrow>
             (let (job2, c4) = update_crawl_job c3 job1 FAILED None None (Some (error_str e))
              in Some (Inl e, c4)))"

section \<open>Graph queries (app/api/graph.py)\<close>

record GraphQuery =
  start_node_id :: nat
  depth :: int
  max_nodes :: int
  relationship_types :: "string list option"
  direction :: string


















subsection \<open>Shortest path\<close>












subsection \<open>Statistics\<close>




subsection \<open>Invariants of the subgraph traversal\<close>



section \<open>Example data\<close>


definition empty_db :: database where
  "empty_db = \<lparr>nodes = [], edges = [], jobs = [], next_uuid = 1\<rparr>"

definition no_server :: "string \<Rightarrow> nat \<Rightarrow> http_response" where
  "no_server url k = ConnectionFailed"






definition visit1 :: crawler where
  "visit1 = new_crawler empty_db ''reddit'' no_server 0"

definition visit2 :: crawler where
  "visit2 = new_crawler
     (db (snd (create_or_update_node visit1 ''user'' ''alice'' ''u/alice''
                 (Some [(''post_karma'', JInt 0), (''comment_karma'', JInt 0)]))))
     ''reddit'' no_server 0"


definition listing :: "json list \<Rightarrow> json" where
  "listing posts =
     JDict [(''data'', JDict [(''children'', JList (map (\<lambda>p. JDict [(''data'', p)]) posts))])]"

definition flaky_site :: "string \<Rightarrow> nat \<Rightarrow> http_response" where
  "flaky_site url k =
     (if url = ''https://www.reddit.com/r/python/about.json''
      then HttpResponse 200 (Some (JDict [(''data'', JDict [(''subscribers'', JInt 10)])]))
      else ConnectionFailed)"

definition flaky_run :: crawler where
  "flaky_run = new_crawler empty_db ''reddit'' flaky_site 0"

definition reddit_site :: "string \<Rightarrow> nat \<Rightarrow> http_response" where
  "reddit_site url k =
     (if url = ''https://www.reddit.com/r/python/about.json''
      then HttpResponse 200 (Some (JDict [(''data'', JDict [(''subscribers'', JInt 10)])]))
      else if url = ''https://www.reddit.com/r/python/top.json''
      then HttpResponse 200 (Some (listing [JDict [(''author'', JStr ''Alice''), (''score'', JInt 50)]]))
      else if url = ''https://www.reddit.com/user/Alice/submitted.json''
      then HttpResponse 200 (Some (listing [JDict [(''subreddit'', JStr ''learnpython'')]]))
      else HttpResponse 404 None)"






section \<open>Properties of the crawl job lifecycle\<close>







section \<open>Properties of the base crawler\<close>

lemma filter_map_replace:
  "(\<And>x. x \<in> set xs \<Longrightarrow> P (g x) = P x) \<Longrightarrow> filter P (map g xs) = map g (filter P xs)"
  by (induction xs) auto

lemma map_of_dict_merge:
  "distinct (map fst new) \<Longrightarrow> map_of (dict_merge old new) = map_of old ++ map_of new"
proof (induction new arbitrary: old)
  case Nil
  then show ?case by (simp add: dict_merge_def)
next
  case (Cons kv new)
  obtain k v where kv: "kv = (k, v)" by (cases kv)
  from Cons.prems kv have dist: "distinct (map fst new)" and notin: "k \<notin> fst ` set new" by auto
  have "map_of (dict_merge old (kv # new)) = map_of (dict_merge (AList.update k v old) new)"
    by (simp add: dict_merge_def kv)
  also have "\<dots> = map_of (AList.update k v old) ++ map_of new"
    using dist by (rule Cons.IH)
  also have "\<dots> = (map_of old)(k \<mapsto> v) ++ map_of new"
    by (simp add: update_conv')
  also have "\<dots> = map_of old ++ map_of (kv # new)"
  proof -
    have "map_of new k = None" using notin by (simp add: map_of_eq_None_iff)
    then show ?thesis
      by (auto simp: kv map_add_def fun_eq_iff split: option.splits)
  qed
  finally show ?case .
qed





lemma create_or_update_node_new:
  assumes "select_node (db c) (source_name c) et eid = []"
    and "source_name c @ '':'' @ et @ '':'' @ eid \<notin> discovered_nodes c"
  shows "db (snd (create_or_update_node c et eid dn md)) =
         (db c)\<lparr>nodes := nodes (db c) @
             [\<lparr>node_id = next_uuid (db c), entity_type = et, entity_id = eid,
               node_source = source_name c, display_name = dn, node_metadata = dict_or_empty md\<rparr>],
            next_uuid := Suc (next_uuid (db c))\<rparr>"
  using assms by (simp add: create_or_update_node_def add_node_def Let_def)

lemma create_or_update_node_seen:
  assumes "source_name c @ '':'' @ et @ '':'' @ eid \<in> discovered_nodes c"
  shows "snd (create_or_update_node c et eid dn md) = c"
  using assms by (simp add: create_or_update_node_def Let_def split: sum.splits)

lemma create_or_update_node_key:
  "source_name c @ '':'' @ et @ '':'' @ eid
     \<in> discovered_nodes (snd (create_or_update_node c et eid dn md))
   \<or> (\<exists>e. fst (create_or_update_node c et eid dn md) = Inl e)"
  by (simp add: create_or_update_node_def Let_def add_node_def split: sum.splits option.splits)

lemma create_or_update_node_existing:
  assumes "select_node (db c) (source_name c) et eid = [n]"
    and "source_name c @ '':'' @ et @ '':'' @ eid \<notin> discovered_nodes c"
  shows "db (snd (create_or_update_node c et eid dn md)) =
           flush_node (db c) (n\<lparr>display_name := dn,
              node_metadata := (if dict_given md then dict_merge (node_metadata n) (dict_or_empty md)
                                else node_metadata n)\<rparr>)"
proof -
  have "n\<lparr>display_name := dn\<rparr> = n\<lparr>display_name := dn, node_metadata := node_metadata n\<rparr>"
    by (cases n) simp
  with assms show ?thesis
    by (simp add: create_or_update_node_def Let_def)
qed

lemma select_node_flush_node:
  assumes sel: "select_node d src et eid = [n]"
    and uniq: "\<forall>m \<in> set (nodes d). node_id m = node_id n \<longrightarrow> m = n"
  shows "select_node (flush_node d (n\<lparr>display_name := dn, node_metadata := md\<rparr>)) src et eid
         = [n\<lparr>display_name := dn, node_metadata := md\<rparr>]"
proof -
  let ?P = "\<lambda>n. node_source n = src \<and> entity_type n = et \<and> entity_id n = eid"
  let ?n' = "n\<lparr>display_name := dn, node_metadata := md\<rparr>"
  let ?g = "\<lambda>m. if node_id m = node_id ?n' then ?n' else m"
  have "n \<in> set (filter ?P (nodes d))" using sel by (simp add: select_node_def)
  then have Pn: "?P n" by simp
  have "filter ?P (map ?g (nodes d)) = map ?g (filter ?P (nodes d))"
  proof (rule filter_map_replace)
    fix x assume "x \<in> set (nodes d)"
    with uniq Pn show "?P (?g x) = ?P x" by auto
  qed
  also have "\<dots> = [?n']" using sel by (simp add: select_node_def)
  finally show ?thesis by (simp add: select_node_def flush_node_def)
qed

lemma dict_merge_not_given: "\<not> dict_given md \<Longrightarrow> dict_merge old (dict_or_empty md) = old"
  by (cases md) (simp_all add: dict_merge_def)




text \<open>
  Claim C2 (amended). Let the first \<open>create_or_update_node\<close> call create the node. After a
  second call for the same identity triple the store holds exactly one record for the
  triple. When the second call is made by a crawler whose discovered-node set does not
  hold the key (a later run, on the database the first call left), the record's metadata
  is the first call's metadata with the second call's keys written over it (a shallow
  union in which later keys override). When the second call is made in the same run, the
  stored record is returned as it is and its metadata stays that of the first call.
\<close>

theorem create_or_update_node_merge:
  assumes new: "select_node (db c) (source_name c) et eid = []"
    and unseen: "source_name c @ '':'' @ et @ '':'' @ eid \<notin> discovered_nodes c"
    and fresh: "uuids_fresh (db c)"
  shows "(db c' = db (snd (create_or_update_node c et eid dn1 md1))
            \<and> source_name c' = source_name c
            \<and> source_name c @ '':'' @ et @ '':'' @ eid \<notin> discovered_nodes c' \<longrightarrow>
          (\<exists>n. select_node (db (snd (create_or_update_node c' et eid dn2 md2))) (source_name c) et eid = [n]
             \<and> node_metadata n = dict_merge (dict_or_empty md1) (dict_or_empty md2)
             \<and> (distinct (map fst (dict_or_empty md2)) \<longrightarrow>
                  map_of (node_metadata n) = map_of (dict_or_empty md1) ++ map_of (dict_or_empty md2))))
       \<and> (\<exists>n. select_node
              (db (snd (create_or_update_node (snd (create_or_update_node c et eid dn1 md1)) et eid dn2 md2)))
              (source_name c) et eid = [n]
            \<and> node_metadata n = dict_or_empty md1)"
proof -
  let ?n = "\<lparr>node_id = next_uuid (db c), entity_type = et, entity_id = eid,
             node_source = source_name c, display_name = dn1, node_metadata = dict_or_empty md1\<rparr>"
  let ?c1 = "snd (create_or_update_node c et eid dn1 md1)"
  have db1: "db ?c1 = (db c)\<lparr>nodes := nodes (db c) @ [?n], next_uuid := Suc (next_uuid (db c))\<rparr>"
    using new unseen by (rule create_or_update_node_new)
  have sel1: "select_node (db ?c1) (source_name c) et eid = [?n]"
    using new by (simp add: db1 select_node_def)
  have uniq: "\<forall>m \<in> set (nodes (db ?c1)). node_id m = node_id ?n \<longrightarrow> m = ?n"
    using fresh by (auto simp: db1 uuids_fresh_def)
  have seen: "source_name c @ '':'' @ et @ '':'' @ eid \<in> discovered_nodes ?c1"
    using new unseen by (simp add: create_or_update_node_def add_node_def Let_def)
  have src1: "source_name ?c1 = source_name c"
    using new unseen by (simp add: create_or_update_node_def add_node_def Let_def)
  have same: "snd (create_or_update_node ?c1 et eid dn2 md2) = ?c1"
  proof (rule create_or_update_node_seen)
    show "source_name ?c1 @ '':'' @ et @ '':'' @ eid \<in> discovered_nodes ?c1"
      using seen by (simp add: src1)
  qed
  have other: "\<exists>n. select_node (db (snd (create_or_update_node c' et eid dn2 md2))) (source_name c) et eid = [n]
             \<and> node_metadata n = dict_merge (dict_or_empty md1) (dict_or_empty md2)
             \<and> (distinct (map fst (dict_or_empty md2)) \<longrightarrow>
                  map_of (node_metadata n) = map_of (dict_or_empty md1) ++ map_of (dict_or_empty md2))"
    if run: "db c' = db ?c1" and src: "source_name c' = source_name c"
      and k: "source_name c @ '':'' @ et @ '':'' @ eid \<notin> discovered_nodes c'"
  proof -
    let ?m = "if dict_given md2 then dict_merge (node_metadata ?n) (dict_or_empty md2)
              else node_metadata ?n"
    have m: "?m = dict_merge (dict_or_empty md1) (dict_or_empty md2)"
      by (simp add: dict_merge_not_given)
    have sel': "select_node (db c') (source_name c') et eid = [?n]"
      using sel1 run src by simp
    have k': "source_name c' @ '':'' @ et @ '':'' @ eid \<notin> discovered_nodes c'"
      using k src by simp
    from create_or_update_node_existing [OF sel' k']
    have "db (snd (create_or_update_node c' et eid dn2 md2)) =
            flush_node (db c') (?n\<lparr>display_name := dn2, node_metadata := ?m\<rparr>)" .
    moreover have "select_node (flush_node (db c') (?n\<lparr>display_name := dn2, node_metadata := ?m\<rparr>))
             (source_name c) et eid = [?n\<lparr>display_name := dn2, node_metadata := ?m\<rparr>]"
      using sel1 uniq unfolding run [symmetric] by (rule select_node_flush_node)
    ultimately have "select_node (db (snd (create_or_update_node c' et eid dn2 md2))) (source_name c) et eid
        = [?n\<lparr>display_name := dn2, node_metadata := ?m\<rparr>]" by simp
    moreover have "node_metadata (?n\<lparr>display_name := dn2, node_metadata := ?m\<rparr>)
        = dict_merge (dict_or_empty md1) (dict_or_empty md2)"
      using m by simp
    ultimately show ?thesis
      using map_of_dict_merge [of "dict_or_empty md2" "dict_or_empty md1"] by simp
  qed
  from other same sel1 show ?thesis by simp
qed

theorem create_or_update_node_merge_witness:
  "select_node (db visit1) (source_name visit1) ''user'' ''alice'' = []
   \<and> uuids_fresh (db visit1)
   \<and> map node_metadata (select_node
        (db (snd (create_or_update_node visit2 ''user'' ''alice'' ''u/Alice''
                    (Some [(''comment_karma'', JInt 7), (''flair'', JStr ''x'')]))))
        ''reddit'' ''user'' ''alice'')
      = [[(''post_karma'', JInt 0), (''comment_karma'', JInt 7), (''flair'', JStr ''x'')]]"
proof -
  have new: "select_node (db visit1) (source_name visit1) ''user'' ''alice'' = []"
    by (simp add: visit1_def new_crawler_def empty_db_def select_node_def)
  have unseen: "source_name visit1 @ '':'' @ ''user'' @ '':'' @ ''alice'' \<notin> discovered_nodes visit1"
    by (simp add: visit1_def new_crawler_def)
  have fresh: "uuids_fresh (db visit1)"
    by (simp add: visit1_def new_crawler_def empty_db_def uuids_fresh_def)
  have second: "db visit2 = db (snd (create_or_update_node visit1 ''user'' ''alice'' ''u/alice''
                 (Some [(''post_karma'', JInt 0), (''comment_karma'', JInt 0)])))
        \<and> source_name visit2 = source_name visit1
        \<and> source_name visit1 @ '':'' @ ''user'' @ '':'' @ ''alice'' \<notin> discovered_nodes visit2"
    by (simp add: visit2_def visit1_def new_crawler_def)
  have src: "source_name visit1 = ''reddit''"
    by (simp add: visit1_def new_crawler_def)
  from create_or_update_node_merge [OF new unseen fresh, of visit2 "''u/alice''"
      "Some [(''post_karma'', JInt 0), (''comment_karma'', JInt 0)]" "''u/Alice''"
      "Some [(''comment_karma'', JInt 7), (''flair'', JStr ''x'')]"] second
  obtain n where "select_node (db (snd (create_or_update_node visit2 ''user'' ''alice'' ''u/Alice''
                    (Some [(''comment_karma'', JInt 7), (''flair'', JStr ''x'')]))))
        ''reddit'' ''user'' ''alice'' = [n]"
    and "node_metadata n = dict_merge [(''post_karma'', JInt 0), (''comment_karma'', JInt 0)]
            [(''comment_karma'', JInt 7), (''flair'', JStr ''x'')]"
    unfolding src by auto
  with new fresh show ?thesis by (simp add: dict_merge_def)
qed

text \<open>
  The claim as stated fails for two calls in one run: the second call's key \<open>flair\<close> is
  not in the stored metadata.
\<close>

theorem create_or_update_node_same_run_counterexample:
  "map node_metadata (select_node
      (db (snd (create_or_update_node
                 (snd (create_or_update_node visit1 ''user'' ''alice'' ''u/alice''
                         (Some [(''post_karma'', JInt 0)])))
                 ''user'' ''alice'' ''u/alice'' (Some [(''flair'', JStr ''x'')]))))
      ''reddit'' ''user'' ''alice'')
   = [[(''post_karma'', JInt 0)]]
   \<and> [(''post_karma'', JInt 0)] \<noteq> dict_merge [(''post_karma'', JInt 0)] [(''flair'', JStr ''x'')]"
  by (simp add: visit1_def new_crawler_def empty_db_def create_or_update_node_def add_node_def
      select_node_def Let_def dict_merge_def)






section \<open>Properties of the Reddit crawler\<close>

lemma length_le_1_cases: "length xs \<le> 1 \<Longrightarrow> xs = [] \<or> (\<exists>x. xs = [x])"
  by (cases xs) (auto simp: length_Suc_conv)

lemma crawl_subreddit_posts_failure:
  assumes seed: "fetch_subreddit_info c name = Some (JDict kvs)" and kvs: "kvs \<noteq> []"
    and fail: "fetch_with_rate_limit (server c) (BASE_URL @ ''/r/'' @ name @ ''/top.json'') 0 0 = Some (Inl e, t)"
    and run: "discovered_nodes c = {}"
    and budget: "1 \<le> max_entities" and crawl_depth: "2 \<le> crawl_depth"
    and store: "length (select_node (db c) (source_name c) ''subreddit'' (lower name)) \<le> 1"
  shows "\<exists>c'. crawl_subreddit c name crawl_depth max_entities = Some (Inr (), c')
           \<and> card (discovered_nodes c') = 1 \<and> discovered_edges c' = discovered_edges c
           \<and> jobs (db c') = jobs (db c) \<and> utcnow c' = utcnow c"
proof -
  from store have "select_node (db c) (source_name c) ''subreddit'' (lower name) = []
      \<or> (\<exists>n. select_node (db c) (source_name c) ''subreddit'' (lower name) = [n])"
    by (rule length_le_1_cases)
  then show ?thesis
  proof
    assume "select_node (db c) (source_name c) ''subreddit'' (lower name) = []"
    then show ?thesis
      using seed kvs fail run budget crawl_depth
      by (simp add: crawl_subreddit_def create_or_update_node_def add_node_def Let_def
          fetch_subreddit_posts_def)
  next
    assume "\<exists>n. select_node (db c) (source_name c) ''subreddit'' (lower name) = [n]"
    then obtain n where "select_node (db c) (source_name c) ''subreddit'' (lower name) = [n]" ..
    then show ?thesis
      using seed kvs fail run budget crawl_depth
      by (simp add: crawl_subreddit_def create_or_update_node_def flush_node_def Let_def
          fetch_subreddit_posts_def)
  qed
qed

text \<open>
  Claim C5 (amended). In a crawl run of depth at least 2 in which the seed subreddit was
  resolved and the fetch of its posts raises a transport failure (any failure other than
  a rate-limit signal), the failure is caught inside \<open>_fetch_subreddit_posts\<close> and the
  posts are taken to be the empty list: the run is not aborted, \<open>crawl\<close> returns the job
  to its caller, and the job is COMPLETED with no \<open>error_message\<close> and the counts of what
  was discovered (the seed node alone).
\<close>

theorem crawl_swallows_posts_failure:
  assumes seed: "fetch_subreddit_info c name = Some (JDict kvs)" and kvs: "kvs \<noteq> []"
    and fail: "fetch_with_rate_limit (server c) (BASE_URL @ ''/r/'' @ name @ ''/top.json'') 0 0 = Some (Inl e, t)"
    and run: "discovered_nodes c = {}" "discovered_edges c = {}"
    and budget: "1 \<le> max_entities" and crawl_depth: "2 \<le> crawl_depth"
    and store: "length (select_node (db c) (source_name c) ''subreddit'' (lower name)) \<le> 1"
  shows "\<exists>job c'. crawl c name crawl_depth max_entities = Some (Inr job, c')
           \<and> status job = COMPLETED \<and> error_message job = None
           \<and> entity_count job = 1 \<and> edge_count job = 0 \<and> completed_at job = Some (utcnow c)"
proof -
  let ?c1 = "snd (create_crawl_job c)"
  let ?job0 = "fst (create_crawl_job c)"
  let ?c2 = "snd (update_crawl_job ?c1 ?job0 RUNNING None None None)"
  let ?job1 = "fst (update_crawl_job ?c1 ?job0 RUNNING None None None)"
  have frame: "server ?c2 = server c" "discovered_nodes ?c2 = discovered_nodes c"
    "discovered_edges ?c2 = discovered_edges c"
    "source_name ?c2 = source_name c" "nodes (db ?c2) = nodes (db c)" "utcnow ?c2 = utcnow c"
    by (simp_all add: create_crawl_job_def update_crawl_job_def add_job_def flush_job_def Let_def)
  have seed2: "fetch_subreddit_info ?c2 name = Some (JDict kvs)"
    using seed by (simp add: fetch_subreddit_info_def frame)
  have store2: "length (select_node (db ?c2) (source_name ?c2) ''subreddit'' (lower name)) \<le> 1"
    using store by (simp add: select_node_def frame)
  have "\<exists>c'. crawl_subreddit ?c2 name crawl_depth max_entities = Some (Inr (), c')
           \<and> card (discovered_nodes c') = 1 \<and> discovered_edges c' = discovered_edges ?c2
           \<and> jobs (db c') = jobs (db ?c2) \<and> utcnow c' = utcnow ?c2"
  proof (rule crawl_subreddit_posts_failure [OF seed2 kvs _ _ budget crawl_depth store2])
    show "fetch_with_rate_limit (server ?c2) (BASE_URL @ ''/r/'' @ name @ ''/top.json'') 0 0 = Some (Inl e, t)"
      using fail by (simp add: frame)
    show "discovered_nodes ?c2 = {}"
      using run by (simp add: frame)
  qed
  then obtain c3 where c3: "crawl_subreddit ?c2 name crawl_depth max_entities = Some (Inr (), c3)"
    and n3: "card (discovered_nodes c3) = 1" and e3: "discovered_edges c3 = {}"
    and t3: "utcnow c3 = utcnow c"
    by (auto simp: frame run)
  have job1: "error_message ?job1 = None"
    by (simp add: create_crawl_job_def update_crawl_job_def add_job_def Let_def)
  show ?thesis
    using c3 n3 e3 t3 job1
    by (simp add: crawl_def split_def update_crawl_job_def Let_def)
qed

theorem crawl_swallows_posts_failure_witness:
  "fetch_subreddit_info flaky_run ''python'' = Some (JDict [(''subscribers'', JInt 10)])
   \<and> fetch_with_rate_limit (server flaky_run) (BASE_URL @ ''/r/'' @ ''python'' @ ''/top.json'') 0 0
       = Some (Inl ClientConnectionError, 0)
   \<and> (\<exists>job c'. crawl flaky_run ''python'' 2 100 = Some (Inr job, c')
           \<and> status job = COMPLETED \<and> error_message job = None
           \<and> entity_count job = 1 \<and> edge_count job = 0 \<and> completed_at job = Some (utcnow flaky_run))"
proof -
  have seed: "fetch_subreddit_info flaky_run ''python'' = Some (JDict [(''subscribers'', JInt 10)])"
    by code_simp
  have kvs: "[(''subscribers'', JInt 10)] \<noteq> []" by simp
  have fail: "fetch_with_rate_limit (server flaky_run) (BASE_URL @ ''/r/'' @ ''python'' @ ''/top.json'') 0 0
       = Some (Inl ClientConnectionError, 0)"
    by code_simp
  have run: "discovered_nodes flaky_run = {}" "discovered_edges flaky_run = {}"
    by (simp_all add: flaky_run_def new_crawler_def)
  have store: "length (select_node (db flaky_run) (source_name flaky_run) ''subreddit'' (lower ''python'')) \<le> 1"
    by (simp add: flaky_run_def new_crawler_def empty_db_def select_node_def)
  from crawl_swallows_posts_failure [OF seed kvs fail run _ _ store, of 100 2] seed fail
  show ?thesis by simp
qed

text \<open>
  The claim as stated fails: the fetch of the posts ends in a connection failure, and the
  job is COMPLETED, not FAILED.
\<close>

theorem crawl_transport_failure_counterexample:
  "fetch_with_rate_limit flaky_site ''https://www.reddit.com/r/python/top.json'' 0 0
       = Some (Inl ClientConnectionError, 0)
   \<and> map_option fst (crawl (new_crawler empty_db ''reddit'' flaky_site 0) ''python'' 2 100)
       = Some (Inr \<lparr>job_id = 1, job_source = ''reddit'', status = COMPLETED,
            entity_count = 1, edge_count = 0, error_message = None,
            started_at = Some 0, completed_at = Some 0\<rparr>)"
  by code_simp

text \<open>
  Claim C3. The recorded \<open>entity_count\<close> is not bounded by \<open>max_entities\<close>: at depth 3 with
  \<open>max_entities = 2\<close>, for a subreddit with one post whose author has also posted in
  another subreddit, the run ends COMPLETED with \<open>entity_count = 3\<close>. \<open>_crawl_user\<close> adds
  the author's subreddits without consulting the budget.
\<close>

theorem crawl_exceeds_budget:
  "map_option fst (crawl (new_crawler empty_db ''reddit'' reddit_site 0) ''python'' 3 2)
   = Some (Inr \<lparr>job_id = 1, job_source = ''reddit'', status = COMPLETED,
          entity_count = 3, edge_count = 2, error_message = None,
          started_at = Some 0, completed_at = Some 0\<rparr>)"
  by code_simp

section \<open>Properties of the graph queries\<close>



















section \<open>Job rows written by a crawl\<close>

lemma jobs_create_or_update_node:
  "jobs (db (snd (create_or_update_node c et eid dn md))) = jobs (db c)"
  by (simp add: create_or_update_node_def Let_def add_node_def flush_node_def
      split: sum.splits option.splits)

lemma jobs_create_edge:
  "jobs (db (snd (create_edge c s t rel w md))) = jobs (db c)"
  by (simp add: create_edge_def Let_def add_edge_def flush_edge_def
      split: sum.splits option.splits)

lemma jobs_connect_subreddits:
  "jobs (db (snd (connect_subreddits c user_node tops))) = jobs (db c)"
proof (induction tops arbitrary: c)
  case Nil
  show ?case by simp
next
  case (Cons sc rest)
  obtain subreddit n where sc: "sc = (subreddit, n)" by (cases sc)
  show ?case
  proof (cases subreddit)
    case (JStr name)
    obtain r1 c1 where n1: "create_or_update_node c ''subreddit'' (lower name) (''r/'' @ name) (Some []) = (r1, c1)"
      by (cases "create_or_update_node c ''subreddit'' (lower name) (''r/'' @ name) (Some [])")
    have j1: "jobs (db c1) = jobs (db c)"
      using jobs_create_or_update_node [of c "''subreddit''" "lower name" "''r/'' @ name" "Some []"] n1
      by simp
    show ?thesis
    proof (cases r1)
      case (Inl e)
      with sc JStr n1 j1 show ?thesis by simp
    next
      case (Inr subreddit_node)
      obtain r2 c2 where n2: "create_edge c1 user_node subreddit_node ''posts_in''
                       (min (real n / 10) 1) (Some [(''post_count'', JInt (int n))]) = (r2, c2)"
        by (cases "create_edge c1 user_node subreddit_node ''posts_in''
                       (min (real n / 10) 1) (Some [(''post_count'', JInt (int n))])")
      have j2: "jobs (db c2) = jobs (db c1)"
        using jobs_create_edge [of c1 user_node subreddit_node "''posts_in''"
            "min (real n / 10) 1" "Some [(''post_count'', JInt (int n))]"] n2
        by simp
      show ?thesis
      proof (cases r2)
        case e: (Inl e)
        with sc JStr n1 Inr n2 j1 j2 show ?thesis by simp
      next
        case ok: (Inr edge)
        have "jobs (db (snd (connect_subreddits c2 user_node rest))) = jobs (db c2)"
          by (rule Cons.IH)
        with sc JStr n1 Inr n2 ok j1 j2 show ?thesis by simp
      qed
    qed
  qed (simp_all add: sc)
qed

lemma jobs_crawl_user:
  assumes "crawl_user c username m = Some (r, c')"
  shows "jobs (db c') = jobs (db c)"
proof -
  from assms obtain posts where posts: "fetch_user_posts c username = Some posts"
    by (auto simp: crawl_user_def split: option.splits)
  show ?thesis
  proof (cases "count_subreddits posts []")
    case (Inl e)
    with assms posts show ?thesis by (simp add: crawl_user_def)
  next
    case (Inr counts)
    obtain r1 c1 where n1: "create_or_update_node c ''user'' (lower username) (''u/'' @ username) (Some []) = (r1, c1)"
      by (cases "create_or_update_node c ''user'' (lower username) (''u/'' @ username) (Some [])")
    have j1: "jobs (db c1) = jobs (db c)"
      using jobs_create_or_update_node [of c "''user''" "lower username" "''u/'' @ username" "Some []"] n1
      by simp
    show ?thesis
    proof (cases r1)
      case e: (Inl e)
      with assms posts Inr n1 j1 show ?thesis by (simp add: crawl_user_def)
    next
      case ok: (Inr user_node)
      have "jobs (db (snd (connect_subreddits c1 user_node
               (take m (sort_key (\<lambda>(s, n). - int n) counts))))) = jobs (db c1)"
        by (rule jobs_connect_subreddits)
      with assms posts Inr n1 ok j1 show ?thesis
        by (auto simp: crawl_user_def)
    qed
  qed
qed


lemma jobs_node_result:
  "create_or_update_node c et eid dn md = (r, c') \<Longrightarrow> jobs (db c') = jobs (db c)"
  using jobs_create_or_update_node [of c et eid dn md] by simp

lemma jobs_edge_result:
  "create_edge c s t rel w md = (r, c') \<Longrightarrow> jobs (db c') = jobs (db c)"
  using jobs_create_edge [of c s t rel w md] by simp

lemma jobs_crawl_posts:
  "crawl_posts c subreddit_node dep cap posts = Some (r, c') \<Longrightarrow> jobs (db c') = jobs (db c)"
proof (induction posts arbitrary: c)
  case Nil
  then show ?case by simp
next
  case (Cons post rest)
  from Cons.prems show ?case
    by (auto simp: Let_def split: if_splits json.splits prod.splits sum.splits option.splits
        dest!: jobs_node_result jobs_edge_result jobs_crawl_user Cons.IH)
qed

lemma jobs_crawl_subreddit:
  "crawl_subreddit c name dep cap = Some (r, c') \<Longrightarrow> jobs (db c') = jobs (db c)"
  by (auto simp: crawl_subreddit_def Let_def
      split: if_splits json.splits prod.splits sum.splits option.splits
      dest!: jobs_node_result jobs_crawl_posts)


lemma flush_job_last:
  assumes "\<forall>j \<in> set js. job_id j \<noteq> job_id x" and "job_id y = job_id x"
  shows "map (\<lambda>j. if job_id j = job_id x then x else j) (js @ [y]) = js @ [x]"
proof -
  have "map (\<lambda>j. if job_id j = job_id x then x else j) js = js"
    using assms(1) by (induction js) auto
  with assms(2) show ?thesis by simp
qed

text \<open>
  A crawl writes no job row but its own: it appends one row under a fresh key, which is
  COMPLETED or FAILED when the crawl returns, and leaves every other row as it was.
\<close>

lemma crawl_appends_one_job:
  assumes fresh: "uuids_fresh (db c)" and run: "crawl c start_entity dep cap = Some (r, c')"
  shows "\<exists>job. jobs (db c') = jobs (db c) @ [job] \<and> job_id job = next_uuid (db c)
           \<and> status job \<in> {COMPLETED, FAILED}"
proof -
  let ?job0 = "\<lparr>job_id = next_uuid (db c), job_source = source_name c, status = PENDING,
                 entity_count = 0, edge_count = 0, error_message = None, started_at = None,
                 completed_at = None\<rparr>"
  let ?job1 = "?job0\<lparr>status := RUNNING, started_at := Some (utcnow c)\<rparr>"
  let ?c1 = "snd (create_crawl_job c)"
  let ?c2 = "snd (update_crawl_job ?c1 (fst (create_crawl_job c)) RUNNING None None None)"
  have old: "\<forall>j \<in> set (jobs (db c)). job_id j \<noteq> next_uuid (db c)"
    using fresh by (auto simp: uuids_fresh_def)
  have j0: "fst (create_crawl_job c) = ?job0"
    by (simp add: create_crawl_job_def add_job_def Let_def)
  have jobs1: "jobs (db ?c1) = jobs (db c) @ [?job0]"
    by (simp add: create_crawl_job_def add_job_def Let_def)
  have now1: "utcnow ?c1 = utcnow c"
    by (simp add: create_crawl_job_def add_job_def Let_def)
  have j1: "fst (update_crawl_job ?c1 ?job0 RUNNING None None None) = ?job1"
    by (simp add: update_crawl_job_def Let_def now1)
  have "jobs (db (snd (update_crawl_job ?c1 ?job0 RUNNING None None None)))
        = map (\<lambda>j. if job_id j = job_id ?job1 then ?job1 else j) (jobs (db c) @ [?job0])"
    by (simp add: update_crawl_job_def Let_def flush_job_def jobs1 now1)
  also have "\<dots> = jobs (db c) @ [?job1]"
    using old by (intro flush_job_last) simp_all
  finally have jobs2: "jobs (db ?c2) = jobs (db c) @ [?job1]"
    by (simp add: j0)
  from run obtain r3 c3 where sub: "crawl_subreddit ?c2 start_entity dep cap = Some (r3, c3)"
    by (auto simp: crawl_def split_def Let_def j0 split: option.splits)
  then have jobs3: "jobs (db c3) = jobs (db c) @ [?job1]"
    using jobs_crawl_subreddit jobs2 by simp
  show ?thesis
  proof (cases r3)
    case (Inl e)
    let ?job2 = "fst (update_crawl_job c3 ?job1 FAILED None None (Some (error_str e)))"
    have id2: "job_id ?job2 = next_uuid (db c)" and st2: "status ?job2 = FAILED"
      by (simp_all add: update_crawl_job_def Let_def)
    have "jobs (db (snd (update_crawl_job c3 ?job1 FAILED None None (Some (error_str e)))))
        = map (\<lambda>j. if job_id j = job_id ?job2 then ?job2 else j) (jobs (db c) @ [?job1])"
      by (simp add: update_crawl_job_def Let_def flush_job_def jobs3)
    also have "\<dots> = jobs (db c) @ [?job2]"
      by (rule flush_job_last) (use old id2 in simp_all)
    finally have "jobs (db (snd (update_crawl_job c3 ?job1 FAILED None None (Some (error_str e)))))
        = jobs (db c) @ [?job2]" .
    moreover have "c' = snd (update_crawl_job c3 ?job1 FAILED None None (Some (error_str e)))"
      using run sub Inl by (simp add: crawl_def split_def Let_def j0 j1)
    ultimately show ?thesis using id2 st2 by blast
  next
    case (Inr u)
    let ?n = "Some (int (card (discovered_nodes c3)))"
    let ?m = "Some (int (card (discovered_edges c3)))"
    let ?job2 = "fst (update_crawl_job c3 ?job1 COMPLETED ?n ?m None)"
    have id2: "job_id ?job2 = next_uuid (db c)" and st2: "status ?job2 = COMPLETED"
      by (simp_all add: update_crawl_job_def Let_def)
    have "jobs (db (snd (update_crawl_job c3 ?job1 COMPLETED ?n ?m None)))
        = map (\<lambda>j. if job_id j = job_id ?job2 then ?job2 else j) (jobs (db c) @ [?job1])"
      by (simp add: update_crawl_job_def Let_def flush_job_def jobs3)
    also have "\<dots> = jobs (db c) @ [?job2]"
      by (rule flush_job_last) (use old id2 in simp_all)
    finally have "jobs (db (snd (update_crawl_job c3 ?job1 COMPLETED ?n ?m None)))
        = jobs (db c) @ [?job2]" .
    moreover have "c' = snd (update_crawl_job c3 ?job1 COMPLETED ?n ?m None)"
      using run sub Inr by (simp add: crawl_def split_def Let_def j0 j1)
    ultimately show ?thesis using id2 st2 by blast
  qed
qed

end
